theory Spec2Isabelle
  imports Main "HOL-Library.Sublist"
begin

section \<open>Pet Store Service: the request handlers of service/routes.py\<close>

text \<open>
  The handlers are modelled as functions from the record store and the request to an
  outcome and the record store after the call. An outcome is either the response that
  the handler returns or the error that \<^verbatim>\<open>abort\<close> raises. The store is threaded
  through every call that writes to it, so the store paired with an error is the store as
  it stands when the handler aborts. Logging is not modelled.
\<close>

subsection \<open>Values exchanged with the client\<close>

text \<open>
  A JSON-compatible Python value. An object is the association list of its dict; a key
  is looked up with \<^const>\<open>map_of\<close>.
\<close>

datatype json =
    JNull
  | JBool bool
  | JNum int
  | JStr string
  | JArr "json list"
  | JObj "(string \<times> json) list"

datatype body = Text string | Json json

record response =
  status :: nat
  body :: body
  location :: "string option"

text \<open>\<^verbatim>\<open>abort(code, message)\<close> raises an HTTP error with a status and a description.\<close>

datatype http_error = Abort nat string

definition abort :: "nat \<Rightarrow> string \<Rightarrow> http_error + 'a" where
  "abort code message = Inl (Abort code message)"

text \<open>
  What a handler reads from the Flask request: the value of
  \<^verbatim>\<open>request.headers.get("Content-Type")\<close> (\<open>None\<close> when the header is not there),
  the query parameters and the form fields as ordered multi-dicts, of which \<^verbatim>\<open>get\<close>
  and indexing read the first value of a key, and the value of \<^verbatim>\<open>request.get_json()\<close>
  (\<open>None\<close> when the body does not parse as JSON).
\<close>

record request =
  content_type :: "string option"
  args :: "(string \<times> string) list"
  form :: "(string \<times> string) list"
  get_json :: "json option"

text \<open>Python's truth value of an optional string: \<open>None\<close> and the empty string are false.\<close>

definition truthy :: "string option \<Rightarrow> bool" where
  "truthy v = (case v of None \<Rightarrow> False | Some s \<Rightarrow> s \<noteq> [])"

text \<open>
  \<^verbatim>\<open>str.lower\<close> on the ASCII letters. Strings are byte strings here; Python lowers
  the letters beyond ASCII as well, and none of them becomes a letter of a truthy token.
\<close>

definition lower_char :: "char \<Rightarrow> char" where
  "lower_char c =
     (let n = (of_char c :: nat) in if 65 \<le> n \<and> n \<le> 90 then char_of (n + 32) else c)"

definition lower :: "string \<Rightarrow> string" where
  "lower s = map lower_char s"

subsection \<open>HTTP status codes\<close>

text \<open>
  Modelled from the spec: the constants of the module \<^verbatim>\<open>service/status.py\<close>, which is
  not among the sources; the spec gives the number of each status.
\<close>

definition HTTP_200_OK :: nat where "HTTP_200_OK = 200"
definition HTTP_201_CREATED :: nat where "HTTP_201_CREATED = 201"
definition HTTP_204_NO_CONTENT :: nat where "HTTP_204_NO_CONTENT = 204"
definition HTTP_400_BAD_REQUEST :: nat where "HTTP_400_BAD_REQUEST = 400"
definition HTTP_404_NOT_FOUND :: nat where "HTTP_404_NOT_FOUND = 404"
definition HTTP_409_CONFLICT :: nat where "HTTP_409_CONFLICT = 409"
definition HTTP_415_UNSUPPORTED_MEDIA_TYPE :: nat where "HTTP_415_UNSUPPORTED_MEDIA_TYPE = 415"

subsection \<open>The Pet entity and the record store\<close>

text \<open>
  Modelled from the spec: the class \<^verbatim>\<open>Pet\<close> of \<^verbatim>\<open>service/models.py\<close> and its
  enumeration of genders are not among the sources. The spec gives a Pet the five fields
  id, name, category, available and gender, the gender being one of MALE, FEMALE and
  UNKNOWN. The field \<open>ident\<close> is the id: \<open>None\<close> until the store assigns one.
\<close>

datatype Gender = MALE | FEMALE | UNKNOWN

fun Gender_name :: "Gender \<Rightarrow> string" where
  "Gender_name MALE = ''MALE''"
| "Gender_name FEMALE = ''FEMALE''"
| "Gender_name UNKNOWN = ''UNKNOWN''"

definition Gender_of_name :: "string \<Rightarrow> Gender option" where
  "Gender_of_name s =
     (if s = ''MALE'' then Some MALE
      else if s = ''FEMALE'' then Some FEMALE
      else if s = ''UNKNOWN'' then Some UNKNOWN
      else None)"

record Pet =
  ident :: "string option"
  name :: string
  category :: string
  available :: bool
  gender :: Gender

text \<open>Modelled from the spec: \<^verbatim>\<open>Pet()\<close>, a Pet that has no id yet.\<close>

definition Pet_new :: Pet where
  "Pet_new = \<lparr>ident = None, name = [], category = [], available = False, gender = UNKNOWN\<rparr>"

text \<open>
  Modelled from the spec: \<^verbatim>\<open>Pet.serialize\<close>, which produces a mapping with all five
  fields, the gender as its string name.
\<close>

definition serialize :: "Pet \<Rightarrow> json" where
  "serialize pet =
     JObj [(''id'', case ident pet of None \<Rightarrow> JNull | Some i \<Rightarrow> JStr i),
           (''name'', JStr (name pet)),
           (''category'', JStr (category pet)),
           (''available'', JBool (available pet)),
           (''gender'', JStr (Gender_name (gender pet)))]"

text \<open>
  Modelled from the spec: \<^verbatim>\<open>Pet.deserialize\<close>, which populates name, category,
  available and gender from a mapping and fails with a validation error when a field is
  missing or of the wrong type (available not a boolean, gender not a recognised token).
  The id of the Pet is left as it is. \<open>Inl\<close> carries the message of the validation error.
\<close>

fun fields_of :: "json \<Rightarrow> (string \<times> json) list option" where
  "fields_of (JObj fs) = Some fs"
| "fields_of _ = None"

fun str_of :: "json option \<Rightarrow> string option" where
  "str_of (Some (JStr s)) = Some s"
| "str_of _ = None"

fun bool_of :: "json option \<Rightarrow> bool option" where
  "bool_of (Some (JBool b)) = Some b"
| "bool_of _ = None"

definition deserialize :: "Pet \<Rightarrow> json \<Rightarrow> string + Pet" where
  "deserialize pet data =
     (case fields_of data of
        None \<Rightarrow> Inl ''Invalid pet: body of request contained bad or no data''
      | Some fs \<Rightarrow>
     (case str_of (map_of fs ''name'') of
        None \<Rightarrow> Inl ''Invalid pet: missing or bad name''
      | Some n \<Rightarrow>
     (case str_of (map_of fs ''category'') of
        None \<Rightarrow> Inl ''Invalid pet: missing or bad category''
      | Some c \<Rightarrow>
     (case bool_of (map_of fs ''available'') of
        None \<Rightarrow> Inl ''Invalid type for boolean [available]''
      | Some a \<Rightarrow>
     (case Option.bind (str_of (map_of fs ''gender'')) Gender_of_name of
        None \<Rightarrow> Inl ''Invalid pet: missing or bad gender''
      | Some g \<Rightarrow>
          Inr (pet\<lparr>name := n, category := c, available := a, gender := g\<rparr>))))))"

text \<open>
  Modelled from the spec: the external record store, an ordered collection of Pets with
  find by id, find all, find by field, create (the store assigns the id), update and
  delete. The id that the store assigns is a parameter of \<open>Pet_create\<close>.
\<close>

type_synonym store = "Pet list"

definition Pet_find :: "store \<Rightarrow> string \<Rightarrow> Pet option" where
  "Pet_find db pet_id = find (\<lambda>pet. ident pet = Some pet_id) db"

definition Pet_all :: "store \<Rightarrow> Pet list" where
  "Pet_all db = db"

definition Pet_find_by_category :: "store \<Rightarrow> string \<Rightarrow> Pet list" where
  "Pet_find_by_category db c = filter (\<lambda>pet. category pet = c) db"

definition Pet_find_by_name :: "store \<Rightarrow> string \<Rightarrow> Pet list" where
  "Pet_find_by_name db n = filter (\<lambda>pet. name pet = n) db"

definition Pet_find_by_availability :: "store \<Rightarrow> bool \<Rightarrow> Pet list" where
  "Pet_find_by_availability db a = filter (\<lambda>pet. available pet = a) db"

definition Pet_find_by_gender :: "store \<Rightarrow> string \<Rightarrow> Pet list" where
  "Pet_find_by_gender db g = filter (\<lambda>pet. Gender_name (gender pet) = g) db"

definition Pet_create :: "(store \<Rightarrow> string) \<Rightarrow> store \<Rightarrow> Pet \<Rightarrow> Pet \<times> store" where
  "Pet_create new_id db pet = (let pet' = pet\<lparr>ident := Some (new_id db)\<rparr> in (pet', db @ [pet']))"

definition Pet_update :: "store \<Rightarrow> Pet \<Rightarrow> store" where
  "Pet_update db pet = map (\<lambda>q. if ident q = ident pet then pet else q) db"

definition Pet_delete :: "store \<Rightarrow> Pet \<Rightarrow> store" where
  "Pet_delete db pet = filter (\<lambda>q. ident q \<noteq> ident pet) db"

subsection \<open>The handlers\<close>

definition make_response :: "body \<Rightarrow> nat \<Rightarrow> response" where
  "make_response b code = \<lparr>status = code, body = b, location = None\<rparr>"

text \<open>The message of the 404 of retrieve, update and purchase.\<close>

definition not_found_message :: "string \<Rightarrow> string" where
  "not_found_message pet_id = ''Pet with id '' @ [CHR 0x27] @ pet_id @ [CHR 0x27] @ '' was not found.''"

text \<open>\<^verbatim>\<open>list_pets\<close>, GET /pets.\<close>

definition list_pets :: "store \<Rightarrow> request \<Rightarrow> (http_error + response) \<times> store" where
  "list_pets db req =
     (let category_arg = map_of (args req) ''category'';
          name_arg = map_of (args req) ''name'';
          available_arg = map_of (args req) ''available'';
          gender_arg = map_of (args req) ''gender'';
          pets =
            (if truthy category_arg then Pet_find_by_category db (the category_arg)
             else if truthy name_arg then Pet_find_by_name db (the name_arg)
             else if truthy available_arg then
               (let is_available =
                      lower (the available_arg) \<in> set [''yes'', ''y'', ''true'', ''t'', ''1'']
                in Pet_find_by_availability db is_available)
             else if truthy gender_arg then Pet_find_by_gender db (the gender_arg)
             else Pet_all db);
          results = map serialize pets
      in (Inr (make_response (Json (JArr results)) HTTP_200_OK), db))"

text \<open>\<^verbatim>\<open>get_pets\<close>, GET /pets/{id}.\<close>

definition get_pets :: "store \<Rightarrow> string \<Rightarrow> (http_error + response) \<times> store" where
  "get_pets db pet_id =
     (case Pet_find db pet_id of
        None \<Rightarrow> (abort HTTP_404_NOT_FOUND (not_found_message pet_id), db)
      | Some pet \<Rightarrow> (Inr (make_response (Json (serialize pet)) HTTP_200_OK), db))"

text \<open>
  The description of an HTTP 400 that the library raises itself, without a message of the
  handler's: Werkzeug's text for a bad request (with the application in debug mode the
  library appends the cause to it).
\<close>

definition bad_request_description :: string where
  "bad_request_description =
     ''The browser (or proxy) sent a request that this server could not understand.''"

text \<open>
  The dict that \<^verbatim>\<open>create_pets\<close> builds from a form submission. Indexing the form with
  a key that it does not have raises Werkzeug's key error, an HTTP 400.
\<close>

definition key_error :: "string \<Rightarrow> http_error + 'a" where
  "key_error k = abort HTTP_400_BAD_REQUEST bad_request_description"

definition form_data :: "request \<Rightarrow> http_error + json" where
  "form_data req =
     (case map_of (form req) ''name'' of
        None \<Rightarrow> key_error ''name''
      | Some n \<Rightarrow>
     (case map_of (form req) ''category'' of
        None \<Rightarrow> key_error ''category''
      | Some c \<Rightarrow>
     (case map_of (form req) ''available'' of
        None \<Rightarrow> key_error ''available''
      | Some a \<Rightarrow>
     (case map_of (form req) ''gender'' of
        None \<Rightarrow> key_error ''gender''
      | Some g \<Rightarrow>
          Inr (JObj [(''name'', JStr n),
                     (''category'', JStr c),
                     (''available'', JBool (lower a \<in> set [''yes'', ''y'', ''true'', ''t'', ''1''])),
                     (''gender'', JStr g)])))))"

text \<open>
  \<^verbatim>\<open>request.get_json()\<close> in a handler: a body that does not parse is Flask's HTTP 400.
\<close>

definition json_data :: "request \<Rightarrow> http_error + json" where
  "json_data req =
     (case get_json req of
        None \<Rightarrow> abort HTTP_400_BAD_REQUEST bad_request_description
      | Some data \<Rightarrow> Inr data)"

text \<open>
  \<^verbatim>\<open>create_pets\<close>, POST /pets. A validation error of \<open>deserialize\<close> is surfaced as
  HTTP 400 (by the error handlers of the service, as the spec has it). Flask's
  \<^verbatim>\<open>url_for\<close> is a parameter: \<open>url_for endpoint pet_id external\<close> is the URL that
  \<^verbatim>\<open>url_for(endpoint, pet_id=pet_id, _external=external)\<close> builds, which depends on the
  host of the request and on the URL map of the application.
\<close>

definition create_pets ::
  "(string \<Rightarrow> string option \<Rightarrow> bool \<Rightarrow> string) \<Rightarrow> (store \<Rightarrow> string) \<Rightarrow> store \<Rightarrow> request
     \<Rightarrow> (http_error + response) \<times> store" where
  "create_pets url_for new_id db req =
     (if \<not> truthy (content_type req) then
        (abort HTTP_400_BAD_REQUEST ''No Content-Type set'', db)
      else
        (let ct = the (content_type req);
             data =
               (if ct = ''application/x-www-form-urlencoded'' then form_data req
                else if ct = ''application/json'' then json_data req
                else abort HTTP_400_BAD_REQUEST (''Unsupported Content-Type: '' @ ct))
         in case data of
              Inl e \<Rightarrow> (Inl e, db)
            | Inr d \<Rightarrow>
                (case deserialize Pet_new d of
                   Inl m \<Rightarrow> (abort HTTP_400_BAD_REQUEST m, db)
                 | Inr pet \<Rightarrow>
                     (case Pet_create new_id db pet of
                        (pet', db') \<Rightarrow>
                          (Inr \<lparr>status = HTTP_201_CREATED,
                                body = Json (serialize pet'),
                                location = Some (url_for ''get_pets'' (ident pet') True)\<rparr>,
                           db')))))"

text \<open>\<^verbatim>\<open>check_content_type\<close>, the shared validator.\<close>

definition check_content_type :: "string \<Rightarrow> request \<Rightarrow> http_error + unit" where
  "check_content_type media_type req =
     (if \<not> truthy (content_type req) then abort HTTP_400_BAD_REQUEST ''No Content-Type set''
      else if the (content_type req) = media_type then Inr ()
      else abort HTTP_415_UNSUPPORTED_MEDIA_TYPE (''Content-Type must be '' @ media_type))"

text \<open>\<^verbatim>\<open>update_pets\<close>, PUT /pets/{id}.\<close>

definition update_pets :: "store \<Rightarrow> string \<Rightarrow> request \<Rightarrow> (http_error + response) \<times> store" where
  "update_pets db pet_id req =
     (case check_content_type ''application/json'' req of
        Inl e \<Rightarrow> (Inl e, db)
      | Inr _ \<Rightarrow>
     (case Pet_find db pet_id of
        None \<Rightarrow> (abort HTTP_404_NOT_FOUND (not_found_message pet_id), db)
      | Some pet \<Rightarrow>
     (case json_data req of
        Inl e \<Rightarrow> (Inl e, db)
      | Inr d \<Rightarrow>
     (case deserialize pet d of
        Inl m \<Rightarrow> (abort HTTP_400_BAD_REQUEST m, db)
      | Inr pet1 \<Rightarrow>
          (let pet2 = pet1\<lparr>ident := Some pet_id\<rparr>;
               db' = Pet_update db pet2
           in (Inr (make_response (Json (serialize pet2)) HTTP_200_OK), db'))))))"

text \<open>\<^verbatim>\<open>delete_pets\<close>, DELETE /pets/{id}.\<close>

definition delete_pets :: "store \<Rightarrow> string \<Rightarrow> (http_error + response) \<times> store" where
  "delete_pets db pet_id =
     (let db' = (case Pet_find db pet_id of None \<Rightarrow> db | Some pet \<Rightarrow> Pet_delete db pet)
      in (Inr (make_response (Text []) HTTP_204_NO_CONTENT), db'))"

text \<open>\<^verbatim>\<open>purchase_pets\<close>, PUT /pets/{id}/purchase.\<close>

definition not_available_message :: "string \<Rightarrow> string" where
  "not_available_message pet_id =
     ''Pet with id '' @ [CHR 0x27] @ pet_id @ [CHR 0x27] @ '' is not available.''"

definition purchase_pets :: "store \<Rightarrow> string \<Rightarrow> (http_error + response) \<times> store" where
  "purchase_pets db pet_id =
     (case Pet_find db pet_id of
        None \<Rightarrow> (abort HTTP_404_NOT_FOUND (not_found_message pet_id), db)
      | Some pet \<Rightarrow>
          (if \<not> available pet then
             (abort HTTP_409_CONFLICT (not_available_message pet_id), db)
           else
             (let pet' = pet\<lparr>available := False\<rparr>;
                  db' = Pet_update db pet'
              in (Inr (make_response (Json (serialize pet')) HTTP_200_OK), db'))))"

subsection \<open>A store of three Pets, for the concrete instances\<close>

definition fido :: Pet where
  "fido = \<lparr>ident = Some ''1'', name = ''fido'', category = ''dog'', available = True, gender = MALE\<rparr>"

definition kitty :: Pet where
  "kitty = \<lparr>ident = Some ''2'', name = ''kitty'', category = ''cat'', available = True, gender = FEMALE\<rparr>"

definition rex :: Pet where
  "rex = \<lparr>ident = Some ''3'', name = ''rex'', category = ''dog'', available = False, gender = UNKNOWN\<rparr>"

subsection \<open>Requests for the concrete instances\<close>

definition empty_request :: request where
  "empty_request = \<lparr>content_type = None, args = [], form = [], get_json = None\<rparr>"

definition form_request :: request where
  "form_request =
     \<lparr>content_type = Some ''application/x-www-form-urlencoded'', args = [],
      form = [(''name'', ''nemo''), (''category'', ''fish''), (''available'', ''No''),
              (''gender'', ''MALE'')],
      get_json = None\<rparr>"

definition json_request :: request where
  "json_request =
     \<lparr>content_type = Some ''application/json'', args = [], form = [],
      get_json = Some (JObj [(''id'', JStr ''99''), (''name'', JStr ''nemo''),
                             (''category'', JStr ''fish''), (''available'', JBool True),
                             (''gender'', JStr ''MALE'')])\<rparr>"

text \<open>
  The URLs that \<^verbatim>\<open>url_for\<close> builds for the service when it is reached at
  http://localhost, where the endpoint \<^verbatim>\<open>get_pets\<close> has the rule /pets/{id}
  (line 83). The handler always gives it the id of a Pet that the store has created.
\<close>

definition localhost_url_for :: "string \<Rightarrow> string option \<Rightarrow> bool \<Rightarrow> string" where
  "localhost_url_for endpoint pet_id external =
     (if external then ''http://localhost'' else []) @ ''/pets/''
       @ (case pet_id of None \<Rightarrow> [] | Some i \<Rightarrow> i)"

definition nemo :: Pet where
  "nemo = \<lparr>ident = None, name = ''nemo'', category = ''fish'', available = True, gender = MALE\<rparr>"

section \<open>Auxiliary facts\<close>

lemma find_ident_map:
  assumes "\<And>q. P (f q) = P q"
  shows "find P (map f xs) = map_option f (find P xs)"
  using assms by (induction xs) auto

lemma Pet_find_ident: "Pet_find db i = Some pet \<Longrightarrow> ident pet = Some i"
  unfolding Pet_find_def by (induction db) (auto split: if_splits)

lemma Pet_find_update:
  "Pet_find (Pet_update db pet) j =
     map_option (\<lambda>q. if ident q = ident pet then pet else q) (Pet_find db j)"
  unfolding Pet_find_def Pet_update_def
  by (rule find_ident_map) simp

lemma Pet_delete_absent: "Pet_find db i = None \<Longrightarrow> filter (\<lambda>q. ident q \<noteq> Some i) db = db"
  unfolding Pet_find_def by (induction db) (auto split: if_splits)

lemma Pet_delete_present: "Pet_find db i = Some pet \<Longrightarrow> filter (\<lambda>q. ident q \<noteq> Some i) db \<noteq> db"
  unfolding Pet_find_def 
  by (metis (mono_tags, lifting) filter_id_conv find_Some_iff nth_mem)

lemma truthy_simps:
  "truthy None = False" "truthy (Some s) = (s \<noteq> [])"
  by (simp_all add: truthy_def)

lemma map_of_remove_key:
  "map_of (filter (\<lambda>(k', v). k' \<noteq> k) xs) j = (if j = k then None else map_of xs j)"
  by (induction xs) auto

lemma lower_YES: "lower ''YES'' = ''yes''"
  by code_simp

lemma lower_T: "lower ''T'' = ''t''"
  by code_simp

lemma lower_No: "lower ''No'' = ''no''"
  by code_simp

lemma lower_no: "lower ''no'' = ''no''"
  by code_simp

lemma deserialize_json_request:
  "deserialize pet (JObj [(''id'', JStr ''99''), (''name'', JStr ''nemo''),
                          (''category'', JStr ''fish''), (''available'', JBool True),
                          (''gender'', JStr ''MALE'')])
   = Inr (pet\<lparr>name := ''nemo'', category := ''fish'', available := True, gender := MALE\<rparr>)"
  by (simp add: deserialize_def Gender_of_name_def)

section \<open>The claims\<close>

subsection \<open>Purchase\<close>

text \<open>
  Claim C1. A purchase whose id names a Pet of the store that is available sets
  \<open>available\<close> to false, persists the record with \<open>update\<close> and returns the serialized
  Pet with HTTP 200, and the Pet found under the id afterwards is the unavailable one.
  A purchase never sets \<open>available\<close> to true: a Pet that is found available under some id
  after any purchase is the Pet that was found under that id before.
\<close>

theorem purchase_available:
  "(Pet_find db pet_id = Some pet \<and> available pet \<longrightarrow>
      purchase_pets db pet_id =
        (Inr \<lparr>status = 200, body = Json (serialize (pet\<lparr>available := False\<rparr>)), location = None\<rparr>,
         Pet_update db (pet\<lparr>available := False\<rparr>))
      \<and> Pet_find (snd (purchase_pets db pet_id)) pet_id = Some (pet\<lparr>available := False\<rparr>))
   \<and> (Pet_find (snd (purchase_pets db pet_id)) j = Some q \<and> available q \<longrightarrow>
        Pet_find db j = Some q)"
proof (intro conjI impI)
  assume a: "Pet_find db pet_id = Some pet \<and> available pet"
  then show "purchase_pets db pet_id =
        (Inr \<lparr>status = 200, body = Json (serialize (pet\<lparr>available := False\<rparr>)), location = None\<rparr>,
         Pet_update db (pet\<lparr>available := False\<rparr>))"
    by (simp add: purchase_pets_def make_response_def HTTP_200_OK_def Let_def)
  from a show "Pet_find (snd (purchase_pets db pet_id)) pet_id = Some (pet\<lparr>available := False\<rparr>)"
    by (simp add: purchase_pets_def Pet_find_update Let_def Pet_find_ident)
next
  assume b: "Pet_find (snd (purchase_pets db pet_id)) j = Some q \<and> available q"
  show "Pet_find db j = Some q"
  proof (cases "Pet_find db pet_id")
    case None
    with b show ?thesis by (simp add: purchase_pets_def)
  next
    case (Some pet)
    show ?thesis
    proof (cases "available pet")
      case False
      with Some b show ?thesis by (simp add: purchase_pets_def)
    next
      case True
      with Some b show ?thesis
        by (auto simp: purchase_pets_def Pet_find_update Let_def split: if_splits)
    qed
  qed
qed


theorem purchase_available_witness:
  "Pet_find [fido, kitty, rex] ''1'' = Some fido \<and> available fido
   \<and> purchase_pets [fido, kitty, rex] ''1'' =
        (Inr \<lparr>status = 200, body = Json (serialize (fido\<lparr>available := False\<rparr>)), location = None\<rparr>,
         [fido\<lparr>available := False\<rparr>, kitty, rex])
   \<and> Pet_find (snd (purchase_pets [fido, kitty, rex] ''1'')) ''2'' = Some kitty \<and> available kitty
   \<and> Pet_find [fido, kitty, rex] ''2'' = Some kitty"
proof -
  have f: "Pet_find [fido, kitty, rex] ''1'' = Some fido"
    by (simp add: Pet_find_def fido_def)
  have a: "available fido" "available kitty"
    by (simp_all add: fido_def kitty_def)
  have u: "Pet_update [fido, kitty, rex] (fido\<lparr>available := False\<rparr>) = [fido\<lparr>available := False\<rparr>, kitty, rex]"
    by (simp add: Pet_update_def fido_def kitty_def rex_def)
  have p: "purchase_pets [fido, kitty, rex] ''1'' =
        (Inr \<lparr>status = 200, body = Json (serialize (fido\<lparr>available := False\<rparr>)), location = None\<rparr>,
         [fido\<lparr>available := False\<rparr>, kitty, rex])"
    using purchase_available [of "[fido, kitty, rex]" "''1''" fido "''2''" kitty] f a u by simp
  have k: "Pet_find (snd (purchase_pets [fido, kitty, rex] ''1'')) ''2'' = Some kitty"
    unfolding p by (simp add: Pet_find_def fido_def kitty_def)
  show ?thesis
    using purchase_available [of "[fido, kitty, rex]" "''1''" fido "''2''" kitty] f a u k by simp
qed

text \<open>
  Claim C2. A purchase whose id names no Pet fails with HTTP 404; a purchase of a Pet
  that is not available fails with HTTP 409, with a message that contains
  "is not available". The store is as it was in both cases.
\<close>

theorem purchase_errors:
  "(Pet_find db pet_id = None \<longrightarrow>
      purchase_pets db pet_id = (Inl (Abort 404 (not_found_message pet_id)), db))
   \<and> (Pet_find db pet_id = Some pet \<and> \<not> available pet \<longrightarrow>
      (\<exists>m. purchase_pets db pet_id = (Inl (Abort 409 m), db) \<and> sublist ''is not available'' m))"
proof (intro conjI impI)
  assume "Pet_find db pet_id = None"
  then show "purchase_pets db pet_id = (Inl (Abort 404 (not_found_message pet_id)), db)"
    by (simp add: purchase_pets_def abort_def HTTP_404_NOT_FOUND_def)
next
  assume a: "Pet_find db pet_id = Some pet \<and> \<not> available pet"
  have "not_available_message pet_id =
          (''Pet with id '' @ [CHR 0x27] @ pet_id @ [CHR 0x27] @ '' '') @ ''is not available'' @ ''.''"
    by (simp add: not_available_message_def)
  then have "sublist ''is not available'' (not_available_message pet_id)"
    unfolding sublist_def by blast
  moreover from a have "purchase_pets db pet_id = (Inl (Abort 409 (not_available_message pet_id)), db)"
    by (simp add: purchase_pets_def abort_def HTTP_409_CONFLICT_def)
  ultimately show "\<exists>m. purchase_pets db pet_id = (Inl (Abort 409 m), db) \<and> sublist ''is not available'' m"
    by blast
qed

theorem purchase_errors_witness:
  "Pet_find [fido, kitty, rex] ''7'' = None
   \<and> purchase_pets [fido, kitty, rex] ''7'' =
       (Inl (Abort 404 (''Pet with id '' @ [CHR 0x27] @ ''7'' @ [CHR 0x27] @ '' was not found.'')),
        [fido, kitty, rex])
   \<and> Pet_find [fido, kitty, rex] ''3'' = Some rex \<and> \<not> available rex
   \<and> (\<exists>m. purchase_pets [fido, kitty, rex] ''3'' = (Inl (Abort 409 m), [fido, kitty, rex])
          \<and> sublist ''is not available'' m)"
proof -
  have n: "Pet_find [fido, kitty, rex] ''7'' = None"
    by (simp add: Pet_find_def fido_def kitty_def rex_def)
  have r: "Pet_find [fido, kitty, rex] ''3'' = Some rex" "\<not> available rex"
    by (simp_all add: Pet_find_def fido_def kitty_def rex_def)
  show ?thesis
    using purchase_errors [of "[fido, kitty, rex]" "''7''" rex]
      purchase_errors [of "[fido, kitty, rex]" "''3''" rex] n r
    by (simp add: not_found_message_def)
qed

subsection \<open>Delete\<close>

text \<open>
  Claim C3. A delete returns HTTP 204 with an empty body, whether or not a Pet with the id
  exists, so never a 404. The store afterwards is the store without the records of that
  id: no Pet is found under the id, and the store has changed exactly when a Pet was found
  under the id before.
\<close>

theorem delete_always_204:
  "fst (delete_pets db pet_id) = Inr \<lparr>status = 204, body = Text [], location = None\<rparr>
   \<and> snd (delete_pets db pet_id) = filter (\<lambda>q. ident q \<noteq> Some pet_id) db
   \<and> Pet_find (snd (delete_pets db pet_id)) pet_id = None
   \<and> (snd (delete_pets db pet_id) = db \<longleftrightarrow> Pet_find db pet_id = None)"
proof -
  have s: "snd (delete_pets db pet_id) = filter (\<lambda>q. ident q \<noteq> Some pet_id) db"
  proof (cases "Pet_find db pet_id")
    case None
    then show ?thesis by (simp add: delete_pets_def Pet_delete_absent)
  next
    case (Some pet)
    then show ?thesis by (simp add: delete_pets_def Pet_delete_def Pet_find_ident)
  qed
  have f: "Pet_find (filter (\<lambda>q. ident q \<noteq> Some pet_id) db) pet_id = None"
    unfolding Pet_find_def by (induction db) auto
  have e: "filter (\<lambda>q. ident q \<noteq> Some pet_id) db = db \<longleftrightarrow> Pet_find db pet_id = None"
    using Pet_delete_absent [of db pet_id] Pet_delete_present [of db pet_id]
    by (cases "Pet_find db pet_id") auto
  show ?thesis
    using s f e by (simp add: delete_pets_def make_response_def HTTP_204_NO_CONTENT_def)
qed

theorem delete_always_204_witness:
  "delete_pets [fido, kitty, rex] ''2'' =
     (Inr \<lparr>status = 204, body = Text [], location = None\<rparr>, [fido, rex])
   \<and> Pet_find [fido, kitty, rex] ''2'' = Some kitty
   \<and> delete_pets [fido, kitty, rex] ''7'' =
     (Inr \<lparr>status = 204, body = Text [], location = None\<rparr>, [fido, kitty, rex])
   \<and> Pet_find [fido, kitty, rex] ''7'' = None"
proof -
  have a: "filter (\<lambda>q. ident q \<noteq> Some ''2'') [fido, kitty, rex] = [fido, rex]"
    and b: "filter (\<lambda>q. ident q \<noteq> Some ''7'') [fido, kitty, rex] = [fido, kitty, rex]"
    and c: "Pet_find [fido, kitty, rex] ''2'' = Some kitty"
    and d: "Pet_find [fido, kitty, rex] ''7'' = None"
    by (simp_all add: Pet_find_def fido_def kitty_def rex_def)
  note t2 = delete_always_204 [of "[fido, kitty, rex]" "''2''", unfolded a]
  note t7 = delete_always_204 [of "[fido, kitty, rex]" "''7''", unfolded b]
  show ?thesis
    using t2 t7 c d by (simp add: prod_eq_iff)
qed

subsection \<open>List\<close>

text \<open>
  Claim C4, as stated, fails: the request GET /pets?category=&name=kitty carries both
  category and name, and the handler applies the name filter, not the category filter,
  because it selects a filter by the truth value of the parameter and the empty string is
  false.
\<close>

theorem list_precedence_counterexample:
  "fst (list_pets [fido, kitty, rex]
         \<lparr>content_type = None, args = [(''category'', ''''), (''name'', ''kitty'')],
          form = [], get_json = None\<rparr>)
     = Inr \<lparr>status = 200, body = Json (JArr [serialize kitty]), location = None\<rparr>
   \<and> Pet_find_by_name [fido, kitty, rex] ''kitty'' = [kitty]
   \<and> Pet_find_by_category [fido, kitty, rex] '''' = []"
  by (simp add: list_pets_def truthy_simps Pet_find_by_name_def Pet_find_by_category_def
      make_response_def HTTP_200_OK_def fido_def kitty_def rex_def)

text \<open>
  Claim C4, amended. Of the four filters category, name, available and gender, only the
  first one in that order whose value is a non-empty string is applied, whatever the
  parameters after it are; in particular a request with a non-empty category and a name
  applies only the category filter. A request in which none of the four has a non-empty
  value returns all records.
\<close>

theorem list_precedence:
  "(map_of (args req) ''category'' = Some c \<and> c \<noteq> [] \<longrightarrow>
      list_pets db req =
        (Inr \<lparr>status = 200, body = Json (JArr (map serialize (Pet_find_by_category db c))),
              location = None\<rparr>, db))
   \<and> (\<not> truthy (map_of (args req) ''category'')
        \<and> map_of (args req) ''name'' = Some n \<and> n \<noteq> [] \<longrightarrow>
      list_pets db req =
        (Inr \<lparr>status = 200, body = Json (JArr (map serialize (Pet_find_by_name db n))),
              location = None\<rparr>, db))
   \<and> (\<not> truthy (map_of (args req) ''category'') \<and> \<not> truthy (map_of (args req) ''name'')
        \<and> map_of (args req) ''available'' = Some a \<and> a \<noteq> [] \<longrightarrow>
      list_pets db req =
        (Inr \<lparr>status = 200,
              body = Json (JArr (map serialize (Pet_find_by_availability db
                       (lower a \<in> {''yes'', ''y'', ''true'', ''t'', ''1''})))),
              location = None\<rparr>, db))
   \<and> (\<not> truthy (map_of (args req) ''category'') \<and> \<not> truthy (map_of (args req) ''name'')
        \<and> \<not> truthy (map_of (args req) ''available'')
        \<and> map_of (args req) ''gender'' = Some g \<and> g \<noteq> [] \<longrightarrow>
      list_pets db req =
        (Inr \<lparr>status = 200, body = Json (JArr (map serialize (Pet_find_by_gender db g))),
              location = None\<rparr>, db))
   \<and> (\<not> truthy (map_of (args req) ''category'') \<and> \<not> truthy (map_of (args req) ''name'')
        \<and> \<not> truthy (map_of (args req) ''available'')
        \<and> \<not> truthy (map_of (args req) ''gender'') \<longrightarrow>
      list_pets db req =
        (Inr \<lparr>status = 200, body = Json (JArr (map serialize db)), location = None\<rparr>, db))"
  by (simp add: list_pets_def truthy_simps make_response_def HTTP_200_OK_def Pet_all_def)

theorem list_precedence_witness:
  "list_pets [fido, kitty, rex]
     (empty_request\<lparr>args := [(''category'', ''dog''), (''name'', ''kitty'')]\<rparr>) =
     (Inr \<lparr>status = 200, body = Json (JArr [serialize fido, serialize rex]), location = None\<rparr>,
      [fido, kitty, rex])
   \<and> list_pets [fido, kitty, rex]
     (empty_request\<lparr>args := [(''name'', ''kitty''), (''available'', ''no'')]\<rparr>) =
     (Inr \<lparr>status = 200, body = Json (JArr [serialize kitty]), location = None\<rparr>,
      [fido, kitty, rex])
   \<and> list_pets [fido, kitty, rex]
     (empty_request\<lparr>args := [(''available'', ''YES''), (''gender'', ''UNKNOWN'')]\<rparr>) =
     (Inr \<lparr>status = 200, body = Json (JArr [serialize fido, serialize kitty]), location = None\<rparr>,
      [fido, kitty, rex])
   \<and> list_pets [fido, kitty, rex] (empty_request\<lparr>args := [(''gender'', ''UNKNOWN'')]\<rparr>) =
     (Inr \<lparr>status = 200, body = Json (JArr [serialize rex]), location = None\<rparr>,
      [fido, kitty, rex])
   \<and> list_pets [fido, kitty, rex] empty_request =
     (Inr \<lparr>status = 200, body = Json (JArr [serialize fido, serialize kitty, serialize rex]),
           location = None\<rparr>,
      [fido, kitty, rex])"
proof -
  have 1: "list_pets [fido, kitty, rex]
       (empty_request\<lparr>args := [(''category'', ''dog''), (''name'', ''kitty'')]\<rparr>) =
     (Inr \<lparr>status = 200,
           body = Json (JArr (map serialize (Pet_find_by_category [fido, kitty, rex] ''dog''))),
           location = None\<rparr>, [fido, kitty, rex])"
    using list_precedence [where req = "empty_request\<lparr>args := [(''category'', ''dog''), (''name'', ''kitty'')]\<rparr>"
        and c = "''dog''" and db = "[fido, kitty, rex]"]
    by simp
  have 2: "list_pets [fido, kitty, rex]
       (empty_request\<lparr>args := [(''name'', ''kitty''), (''available'', ''no'')]\<rparr>) =
     (Inr \<lparr>status = 200,
           body = Json (JArr (map serialize (Pet_find_by_name [fido, kitty, rex] ''kitty''))),
           location = None\<rparr>, [fido, kitty, rex])"
    using list_precedence [where req = "empty_request\<lparr>args := [(''name'', ''kitty''), (''available'', ''no'')]\<rparr>"
        and n = "''kitty''" and db = "[fido, kitty, rex]"]
    by (simp add: truthy_simps)
  have 3: "list_pets [fido, kitty, rex]
       (empty_request\<lparr>args := [(''available'', ''YES''), (''gender'', ''UNKNOWN'')]\<rparr>) =
     (Inr \<lparr>status = 200,
           body = Json (JArr (map serialize (Pet_find_by_availability [fido, kitty, rex] True))),
           location = None\<rparr>, [fido, kitty, rex])"
    using list_precedence [where req = "empty_request\<lparr>args := [(''available'', ''YES''), (''gender'', ''UNKNOWN'')]\<rparr>"
        and a = "''YES''" and db = "[fido, kitty, rex]"]
    by (simp add: truthy_simps lower_YES)
  have 4: "list_pets [fido, kitty, rex] (empty_request\<lparr>args := [(''gender'', ''UNKNOWN'')]\<rparr>) =
     (Inr \<lparr>status = 200,
           body = Json (JArr (map serialize (Pet_find_by_gender [fido, kitty, rex] ''UNKNOWN''))),
           location = None\<rparr>, [fido, kitty, rex])"
    using list_precedence [where req = "empty_request\<lparr>args := [(''gender'', ''UNKNOWN'')]\<rparr>"
        and g = "''UNKNOWN''" and db = "[fido, kitty, rex]"]
    by (simp add: truthy_simps)
  have 5: "list_pets [fido, kitty, rex] empty_request =
     (Inr \<lparr>status = 200, body = Json (JArr (map serialize [fido, kitty, rex])), location = None\<rparr>,
      [fido, kitty, rex])"
    using list_precedence [where req = empty_request and db = "[fido, kitty, rex]"]
    by (simp add: truthy_simps empty_request_def)
  have f: "Pet_find_by_category [fido, kitty, rex] ''dog'' = [fido, rex]"
    "Pet_find_by_name [fido, kitty, rex] ''kitty'' = [kitty]"
    "Pet_find_by_availability [fido, kitty, rex] True = [fido, kitty]"
    "Pet_find_by_gender [fido, kitty, rex] ''UNKNOWN'' = [rex]"
    by (simp_all add: Pet_find_by_category_def Pet_find_by_name_def Pet_find_by_availability_def
        Pet_find_by_gender_def fido_def kitty_def rex_def)
  show ?thesis
    unfolding 1 2 3 4 5 f by simp
qed

text \<open>
  Claim C9. A filter parameter that is present with the empty string as its value is
  treated as absent, and the handler falls through to the next filter in the order: when
  one of category, name, available and gender has the empty value, the response is the
  one that the other three select, in the order of precedence, and all records when none
  of the other three has a non-empty value. So the response is that of the same request
  without the parameter, and GET /pets?category= returns all Pets.
\<close>

theorem list_empty_value_is_absent:
  "(let category_arg = map_of (args req) ''category'';
        name_arg = map_of (args req) ''name'';
        available_arg = map_of (args req) ''available'';
        gender_arg = map_of (args req) ''gender''
    in (category_arg = Some [] \<longrightarrow>
          list_pets db req =
            (Inr \<lparr>status = 200,
                  body = Json (JArr (map serialize
                    (if truthy name_arg then Pet_find_by_name db (the name_arg)
                     else if truthy available_arg then
                       Pet_find_by_availability db
                         (lower (the available_arg) \<in> {''yes'', ''y'', ''true'', ''t'', ''1''})
                     else if truthy gender_arg then Pet_find_by_gender db (the gender_arg)
                     else db))),
                  location = None\<rparr>, db))
     \<and> (name_arg = Some [] \<longrightarrow>
          list_pets db req =
            (Inr \<lparr>status = 200,
                  body = Json (JArr (map serialize
                    (if truthy category_arg then Pet_find_by_category db (the category_arg)
                     else if truthy available_arg then
                       Pet_find_by_availability db
                         (lower (the available_arg) \<in> {''yes'', ''y'', ''true'', ''t'', ''1''})
                     else if truthy gender_arg then Pet_find_by_gender db (the gender_arg)
                     else db))),
                  location = None\<rparr>, db))
     \<and> (available_arg = Some [] \<longrightarrow>
          list_pets db req =
            (Inr \<lparr>status = 200,
                  body = Json (JArr (map serialize
                    (if truthy category_arg then Pet_find_by_category db (the category_arg)
                     else if truthy name_arg then Pet_find_by_name db (the name_arg)
                     else if truthy gender_arg then Pet_find_by_gender db (the gender_arg)
                     else db))),
                  location = None\<rparr>, db))
     \<and> (gender_arg = Some [] \<longrightarrow>
          list_pets db req =
            (Inr \<lparr>status = 200,
                  body = Json (JArr (map serialize
                    (if truthy category_arg then Pet_find_by_category db (the category_arg)
                     else if truthy name_arg then Pet_find_by_name db (the name_arg)
                     else if truthy available_arg then
                       Pet_find_by_availability db
                         (lower (the available_arg) \<in> {''yes'', ''y'', ''true'', ''t'', ''1''})
                     else db))),
                  location = None\<rparr>, db)))
   \<and> (k \<in> {''category'', ''name'', ''available'', ''gender''} \<and> map_of (args req) k = Some [] \<longrightarrow>
      list_pets db req = list_pets db (req\<lparr>args := filter (\<lambda>(k', v). k' \<noteq> k) (args req)\<rparr>))
   \<and> list_pets db (req\<lparr>args := [(''category'', [])]\<rparr>) =
        (Inr \<lparr>status = 200, body = Json (JArr (map serialize db)), location = None\<rparr>, db)"
proof (intro conjI)
  show "let category_arg = map_of (args req) ''category'';
        name_arg = map_of (args req) ''name'';
        available_arg = map_of (args req) ''available'';
        gender_arg = map_of (args req) ''gender''
    in (category_arg = Some [] \<longrightarrow>
          list_pets db req =
            (Inr \<lparr>status = 200,
                  body = Json (JArr (map serialize
                    (if truthy name_arg then Pet_find_by_name db (the name_arg)
                     else if truthy available_arg then
                       Pet_find_by_availability db
                         (lower (the available_arg) \<in> {''yes'', ''y'', ''true'', ''t'', ''1''})
                     else if truthy gender_arg then Pet_find_by_gender db (the gender_arg)
                     else db))),
                  location = None\<rparr>, db))
     \<and> (name_arg = Some [] \<longrightarrow>
          list_pets db req =
            (Inr \<lparr>status = 200,
                  body = Json (JArr (map serialize
                    (if truthy category_arg then Pet_find_by_category db (the category_arg)
                     else if truthy available_arg then
                       Pet_find_by_availability db
                         (lower (the available_arg) \<in> {''yes'', ''y'', ''true'', ''t'', ''1''})
                     else if truthy gender_arg then Pet_find_by_gender db (the gender_arg)
                     else db))),
                  location = None\<rparr>, db))
     \<and> (available_arg = Some [] \<longrightarrow>
          list_pets db req =
            (Inr \<lparr>status = 200,
                  body = Json (JArr (map serialize
                    (if truthy category_arg then Pet_find_by_category db (the category_arg)
                     else if truthy name_arg then Pet_find_by_name db (the name_arg)
                     else if truthy gender_arg then Pet_find_by_gender db (the gender_arg)
                     else db))),
                  location = None\<rparr>, db))
     \<and> (gender_arg = Some [] \<longrightarrow>
          list_pets db req =
            (Inr \<lparr>status = 200,
                  body = Json (JArr (map serialize
                    (if truthy category_arg then Pet_find_by_category db (the category_arg)
                     else if truthy name_arg then Pet_find_by_name db (the name_arg)
                     else if truthy available_arg then
                       Pet_find_by_availability db
                         (lower (the available_arg) \<in> {''yes'', ''y'', ''true'', ''t'', ''1''})
                     else db))),
                  location = None\<rparr>, db))"
    by (simp add: list_pets_def truthy_simps make_response_def HTTP_200_OK_def Pet_all_def Let_def)
next
  show "k \<in> {''category'', ''name'', ''available'', ''gender''} \<and> map_of (args req) k = Some [] \<longrightarrow>
      list_pets db req = list_pets db (req\<lparr>args := filter (\<lambda>(k', v). k' \<noteq> k) (args req)\<rparr>)"
  proof
    assume a: "k \<in> {''category'', ''name'', ''available'', ''gender''} \<and> map_of (args req) k = Some []"
    then consider "k = ''category''" | "k = ''name''" | "k = ''available''" | "k = ''gender''"
      by auto
    then show "list_pets db req = list_pets db (req\<lparr>args := filter (\<lambda>(k', v). k' \<noteq> k) (args req)\<rparr>)"
    proof cases
      case 1
      with a show ?thesis by (simp add: list_pets_def map_of_remove_key truthy_simps Let_def)
    next
      case 2
      with a show ?thesis by (simp add: list_pets_def map_of_remove_key truthy_simps Let_def)
    next
      case 3
      with a show ?thesis by (simp add: list_pets_def map_of_remove_key truthy_simps Let_def)
    next
      case 4
      with a show ?thesis by (simp add: list_pets_def map_of_remove_key truthy_simps Let_def)
    qed
  qed
next
  show "list_pets db (req\<lparr>args := [(''category'', [])]\<rparr>) =
        (Inr \<lparr>status = 200, body = Json (JArr (map serialize db)), location = None\<rparr>, db)"
    by (simp add: list_pets_def truthy_simps make_response_def HTTP_200_OK_def Pet_all_def)
qed

theorem list_empty_value_is_absent_witness:
  "list_pets [fido, kitty, rex]
     (empty_request\<lparr>args := [(''category'', []), (''name'', ''kitty'')]\<rparr>) =
     (Inr \<lparr>status = 200, body = Json (JArr [serialize kitty]), location = None\<rparr>,
      [fido, kitty, rex])
   \<and> list_pets [fido, kitty, rex]
     (empty_request\<lparr>args := [(''name'', []), (''available'', ''no'')]\<rparr>) =
     (Inr \<lparr>status = 200, body = Json (JArr [serialize rex]), location = None\<rparr>,
      [fido, kitty, rex])
   \<and> list_pets [fido, kitty, rex]
     (empty_request\<lparr>args := [(''available'', []), (''gender'', ''MALE'')]\<rparr>) =
     (Inr \<lparr>status = 200, body = Json (JArr [serialize fido]), location = None\<rparr>,
      [fido, kitty, rex])
   \<and> list_pets [fido, kitty, rex] (empty_request\<lparr>args := [(''gender'', [])]\<rparr>) =
     (Inr \<lparr>status = 200, body = Json (JArr [serialize fido, serialize kitty, serialize rex]),
           location = None\<rparr>,
      [fido, kitty, rex])
   \<and> list_pets [fido, kitty, rex]
        (empty_request\<lparr>args := [(''category'', []), (''name'', ''kitty'')]\<rparr>)
     = list_pets [fido, kitty, rex] (empty_request\<lparr>args := [(''name'', ''kitty'')]\<rparr>)
   \<and> list_pets [fido, kitty, rex] (empty_request\<lparr>args := [(''category'', [])]\<rparr>) =
     (Inr \<lparr>status = 200, body = Json (JArr [serialize fido, serialize kitty, serialize rex]),
           location = None\<rparr>,
      [fido, kitty, rex])"
proof -
  have f: "Pet_find_by_name [fido, kitty, rex] ''kitty'' = [kitty]"
    "Pet_find_by_availability [fido, kitty, rex] False = [rex]"
    "Pet_find_by_gender [fido, kitty, rex] ''MALE'' = [fido]"
    by (simp_all add: Pet_find_by_name_def Pet_find_by_availability_def Pet_find_by_gender_def
        fido_def kitty_def rex_def)
  have 1: "list_pets [fido, kitty, rex]
       (empty_request\<lparr>args := [(''category'', []), (''name'', ''kitty'')]\<rparr>) =
     (Inr \<lparr>status = 200, body = Json (JArr [serialize kitty]), location = None\<rparr>,
      [fido, kitty, rex])"
    using list_empty_value_is_absent [where db = "[fido, kitty, rex]" and k = "''category''"
        and req = "empty_request\<lparr>args := [(''category'', []), (''name'', ''kitty'')]\<rparr>"]
    by (simp add: truthy_simps f)
  have 5: "list_pets [fido, kitty, rex]
        (empty_request\<lparr>args := [(''category'', []), (''name'', ''kitty'')]\<rparr>)
     = list_pets [fido, kitty, rex] (empty_request\<lparr>args := [(''name'', ''kitty'')]\<rparr>)"
    using list_empty_value_is_absent [where db = "[fido, kitty, rex]" and k = "''category''"
        and req = "empty_request\<lparr>args := [(''category'', []), (''name'', ''kitty'')]\<rparr>",
        THEN conjunct2, THEN conjunct1]
    by simp
  have 6: "list_pets [fido, kitty, rex] (empty_request\<lparr>args := [(''category'', [])]\<rparr>) =
     (Inr \<lparr>status = 200, body = Json (JArr [serialize fido, serialize kitty, serialize rex]),
           location = None\<rparr>,
      [fido, kitty, rex])"
    using list_empty_value_is_absent [where db = "[fido, kitty, rex]" and req = empty_request,
        THEN conjunct2, THEN conjunct2]
    by simp
  have 2: "list_pets [fido, kitty, rex]
       (empty_request\<lparr>args := [(''name'', []), (''available'', ''no'')]\<rparr>) =
     (Inr \<lparr>status = 200, body = Json (JArr [serialize rex]), location = None\<rparr>,
      [fido, kitty, rex])"
    using list_empty_value_is_absent [where db = "[fido, kitty, rex]" and k = "''name''"
        and req = "empty_request\<lparr>args := [(''name'', []), (''available'', ''no'')]\<rparr>"]
    by (simp add: truthy_simps lower_no f)
  have 3: "list_pets [fido, kitty, rex]
       (empty_request\<lparr>args := [(''available'', []), (''gender'', ''MALE'')]\<rparr>) =
     (Inr \<lparr>status = 200, body = Json (JArr [serialize fido]), location = None\<rparr>,
      [fido, kitty, rex])"
    using list_empty_value_is_absent [where db = "[fido, kitty, rex]" and k = "''available''"
        and req = "empty_request\<lparr>args := [(''available'', []), (''gender'', ''MALE'')]\<rparr>"]
    by (simp add: truthy_simps f)
  have 4: "list_pets [fido, kitty, rex] (empty_request\<lparr>args := [(''gender'', [])]\<rparr>) =
     (Inr \<lparr>status = 200, body = Json (JArr [serialize fido, serialize kitty, serialize rex]),
           location = None\<rparr>,
      [fido, kitty, rex])"
    using list_empty_value_is_absent [where db = "[fido, kitty, rex]" and k = "''gender''"
        and req = "empty_request\<lparr>args := [(''gender'', [])]\<rparr>"]
    by (simp add: truthy_simps)
  show ?thesis
    using 1 2 3 4 5 6 by simp
qed

subsection \<open>The available field\<close>

text \<open>
  Claim C5, as stated, fails at the empty string in the list endpoint: the lowercasing of
  the empty string is none of the tokens, so the boolean parsed from it would be false and
  GET /pets?available= would return the Pets that are not available. The handler does not
  parse an empty value: it skips the filter and returns all Pets.
\<close>

theorem available_parsing_counterexample:
  "list_pets [fido, kitty, rex]
     \<lparr>content_type = None, args = [(''available'', [])], form = [], get_json = None\<rparr>
     = (Inr \<lparr>status = 200, body = Json (JArr [serialize fido, serialize kitty, serialize rex]),
             location = None\<rparr>,
        [fido, kitty, rex])
   \<and> lower [] \<notin> {''yes'', ''y'', ''true'', ''t'', ''1''}
   \<and> Pet_find_by_availability [fido, kitty, rex] False = [rex]
   \<and> [rex] \<noteq> [fido, kitty, rex]"
  by (simp add: list_pets_def truthy_simps Pet_all_def Pet_find_by_availability_def lower_def
      make_response_def HTTP_200_OK_def fido_def kitty_def rex_def)

text \<open>
  Claim C5, amended. The boolean that the handlers read from a string \<open>s\<close> for the
  available field is true exactly when the lowercasing of \<open>s\<close> is one of "yes", "y",
  "true", "t" and "1", and false for every other string: for every non-empty \<open>s\<close> in the
  available filter of the list endpoint, where that filter is the one applied, the records
  returned are those whose availability equals that boolean; for every \<open>s\<close> in a
  form-encoded create, the dict built from the form and the Pet created carry that
  boolean. An available query parameter with the empty value is not parsed: no filter on
  availability is applied, and the gender filter or no filter decides the records.
\<close>

theorem available_parsing:
  "(\<not> truthy (map_of (args req) ''category'') \<and> \<not> truthy (map_of (args req) ''name'')
      \<and> map_of (args req) ''available'' = Some s \<and> s \<noteq> [] \<longrightarrow>
      list_pets db req =
        (Inr \<lparr>status = 200,
              body = Json (JArr (map serialize
                       (filter (\<lambda>pet. available pet
                                  = (lower s \<in> {''yes'', ''y'', ''true'', ''t'', ''1''})) db))),
              location = None\<rparr>, db))
   \<and> (\<not> truthy (map_of (args req) ''category'') \<and> \<not> truthy (map_of (args req) ''name'')
      \<and> map_of (args req) ''available'' = Some [] \<longrightarrow>
      list_pets db req =
        (Inr \<lparr>status = 200,
              body = Json (JArr (map serialize
                       (if truthy (map_of (args req) ''gender'')
                        then Pet_find_by_gender db (the (map_of (args req) ''gender''))
                        else db))),
              location = None\<rparr>, db))
   \<and> (content_type req = Some ''application/x-www-form-urlencoded''
      \<and> map_of (form req) ''name'' = Some n \<and> map_of (form req) ''category'' = Some c
      \<and> map_of (form req) ''available'' = Some s \<and> map_of (form req) ''gender'' = Some t \<longrightarrow>
      form_data req =
        Inr (JObj [(''name'', JStr n), (''category'', JStr c),
                   (''available'', JBool (lower s \<in> {''yes'', ''y'', ''true'', ''t'', ''1''})),
                   (''gender'', JStr t)])
      \<and> (Gender_of_name t = Some g \<longrightarrow>
          create_pets url_for new_id db req =
            (Inr \<lparr>status = 201,
                  body = Json (serialize
                    \<lparr>ident = Some (new_id db), name = n, category = c,
                     available = (lower s \<in> {''yes'', ''y'', ''true'', ''t'', ''1''}), gender = g\<rparr>),
                  location = Some (url_for ''get_pets'' (Some (new_id db)) True)\<rparr>,
             db @ [\<lparr>ident = Some (new_id db), name = n, category = c,
                    available = (lower s \<in> {''yes'', ''y'', ''true'', ''t'', ''1''}),
                    gender = g\<rparr>])))"
proof (intro conjI impI)
  assume "\<not> truthy (map_of (args req) ''category'') \<and> \<not> truthy (map_of (args req) ''name'')
      \<and> map_of (args req) ''available'' = Some s \<and> s \<noteq> []"
  then show "list_pets db req =
        (Inr \<lparr>status = 200,
              body = Json (JArr (map serialize
                       (filter (\<lambda>pet. available pet
                                  = (lower s \<in> {''yes'', ''y'', ''true'', ''t'', ''1''})) db))),
              location = None\<rparr>, db)"
    by (simp add: list_pets_def truthy_simps make_response_def HTTP_200_OK_def
        Pet_find_by_availability_def)
next
  assume "\<not> truthy (map_of (args req) ''category'') \<and> \<not> truthy (map_of (args req) ''name'')
      \<and> map_of (args req) ''available'' = Some []"
  then show "list_pets db req =
        (Inr \<lparr>status = 200,
              body = Json (JArr (map serialize
                       (if truthy (map_of (args req) ''gender'')
                        then Pet_find_by_gender db (the (map_of (args req) ''gender''))
                        else db))),
              location = None\<rparr>, db)"
    by (simp add: list_pets_def truthy_simps make_response_def HTTP_200_OK_def Pet_all_def)
next
  assume a: "content_type req = Some ''application/x-www-form-urlencoded''
      \<and> map_of (form req) ''name'' = Some n \<and> map_of (form req) ''category'' = Some c
      \<and> map_of (form req) ''available'' = Some s \<and> map_of (form req) ''gender'' = Some t"
  then show fd: "form_data req =
        Inr (JObj [(''name'', JStr n), (''category'', JStr c),
                   (''available'', JBool (lower s \<in> {''yes'', ''y'', ''true'', ''t'', ''1''})),
                   (''gender'', JStr t)])"
    by (simp add: form_data_def)
  assume g: "Gender_of_name t = Some g"
  have d: "deserialize Pet_new
             (JObj [(''name'', JStr n), (''category'', JStr c), (''available'', JBool b),
                    (''gender'', JStr t)])
           = Inr \<lparr>ident = None, name = n, category = c, available = b, gender = g\<rparr>" for b
    using g by (simp add: deserialize_def Pet_new_def)
  from a show "create_pets url_for new_id db req =
            (Inr \<lparr>status = 201,
                  body = Json (serialize
                    \<lparr>ident = Some (new_id db), name = n, category = c,
                     available = (lower s \<in> {''yes'', ''y'', ''true'', ''t'', ''1''}), gender = g\<rparr>),
                  location = Some (url_for ''get_pets'' (Some (new_id db)) True)\<rparr>,
             db @ [\<lparr>ident = Some (new_id db), name = n, category = c,
                    available = (lower s \<in> {''yes'', ''y'', ''true'', ''t'', ''1''}),
                    gender = g\<rparr>])"
    by (simp add: create_pets_def truthy_simps fd d Pet_create_def
        HTTP_201_CREATED_def Let_def)
qed

theorem available_parsing_witness:
  "list_pets [fido, kitty, rex] (empty_request\<lparr>args := [(''available'', ''T'')]\<rparr>) =
     (Inr \<lparr>status = 200, body = Json (JArr [serialize fido, serialize kitty]), location = None\<rparr>,
      [fido, kitty, rex])
   \<and> list_pets [fido, kitty, rex] (empty_request\<lparr>args := [(''available'', ''no'')]\<rparr>) =
     (Inr \<lparr>status = 200, body = Json (JArr [serialize rex]), location = None\<rparr>,
      [fido, kitty, rex])
   \<and> list_pets [fido, kitty, rex]
        (empty_request\<lparr>args := [(''available'', []), (''gender'', ''FEMALE'')]\<rparr>) =
     (Inr \<lparr>status = 200, body = Json (JArr [serialize kitty]), location = None\<rparr>,
      [fido, kitty, rex])
   \<and> form_data form_request =
        Inr (JObj [(''name'', JStr ''nemo''), (''category'', JStr ''fish''),
                   (''available'', JBool False), (''gender'', JStr ''MALE'')])
   \<and> create_pets localhost_url_for (\<lambda>db. ''4'') [fido, kitty, rex] form_request =
        (Inr \<lparr>status = 201,
              body = Json (serialize \<lparr>ident = Some ''4'', name = ''nemo'', category = ''fish'',
                                     available = False, gender = MALE\<rparr>),
              location = Some ''http://localhost/pets/4''\<rparr>,
         [fido, kitty, rex,
          \<lparr>ident = Some ''4'', name = ''nemo'', category = ''fish'', available = False,
           gender = MALE\<rparr>])"
proof -
  have f: "filter (\<lambda>pet. available pet = True) [fido, kitty, rex] = [fido, kitty]"
    "filter (\<lambda>pet. available pet = False) [fido, kitty, rex] = [rex]"
    "Pet_find_by_gender [fido, kitty, rex] ''FEMALE'' = [kitty]"
    by (simp_all add: Pet_find_by_gender_def fido_def kitty_def rex_def)
  have 1: "list_pets [fido, kitty, rex] (empty_request\<lparr>args := [(''available'', ''T'')]\<rparr>) =
     (Inr \<lparr>status = 200,
           body = Json (JArr (map serialize (filter (\<lambda>pet. available pet = True) [fido, kitty, rex]))),
           location = None\<rparr>,
      [fido, kitty, rex])"
    using available_parsing [where req = "empty_request\<lparr>args := [(''available'', ''T'')]\<rparr>"
        and s = "''T''" and db = "[fido, kitty, rex]"]
    by (simp add: truthy_simps lower_T)
  have 2: "list_pets [fido, kitty, rex] (empty_request\<lparr>args := [(''available'', ''no'')]\<rparr>) =
     (Inr \<lparr>status = 200,
           body = Json (JArr (map serialize (filter (\<lambda>pet. available pet = False) [fido, kitty, rex]))),
           location = None\<rparr>,
      [fido, kitty, rex])"
    using available_parsing [where req = "empty_request\<lparr>args := [(''available'', ''no'')]\<rparr>"
        and s = "''no''" and db = "[fido, kitty, rex]"]
    by (simp add: truthy_simps lower_no)
  have 3: "list_pets [fido, kitty, rex]
        (empty_request\<lparr>args := [(''available'', []), (''gender'', ''FEMALE'')]\<rparr>) =
     (Inr \<lparr>status = 200,
           body = Json (JArr (map serialize (Pet_find_by_gender [fido, kitty, rex] ''FEMALE''))),
           location = None\<rparr>,
      [fido, kitty, rex])"
    using available_parsing [where db = "[fido, kitty, rex]"
        and req = "empty_request\<lparr>args := [(''available'', []), (''gender'', ''FEMALE'')]\<rparr>"]
    by (simp add: truthy_simps)
  have 4: "form_data form_request =
        Inr (JObj [(''name'', JStr ''nemo''), (''category'', JStr ''fish''),
                   (''available'', JBool False), (''gender'', JStr ''MALE'')])
     \<and> create_pets localhost_url_for (\<lambda>db. ''4'') [fido, kitty, rex] form_request =
        (Inr \<lparr>status = 201,
              body = Json (serialize \<lparr>ident = Some ''4'', name = ''nemo'', category = ''fish'',
                                     available = False, gender = MALE\<rparr>),
              location = Some ''http://localhost/pets/4''\<rparr>,
         [fido, kitty, rex,
          \<lparr>ident = Some ''4'', name = ''nemo'', category = ''fish'', available = False,
           gender = MALE\<rparr>])"
    using available_parsing [where req = form_request and n = "''nemo''" and c = "''fish''"
        and s = "''No''" and t = "''MALE''" and g = MALE and db = "[fido, kitty, rex]"
        and new_id = "\<lambda>db. ''4''" and url_for = localhost_url_for]
    by (simp add: form_request_def lower_No Gender_of_name_def localhost_url_for_def)
  show ?thesis
    unfolding 1 2 3 f using 4 by simp
qed

subsection \<open>Create\<close>

text \<open>
  Claim C6. A create without a Content-Type (no header, or an empty one) fails with
  HTTP 400 and the message "No Content-Type set". A Content-Type other than
  "application/x-www-form-urlencoded" and "application/json" fails with HTTP 400 and a
  message that contains the type, which is "Unsupported Content-Type: " followed by the
  type when the type is not empty. With one of the two types, and a form or a body that
  can be read, the outcome is that of deserializing the data: a 400 of the validation
  error, or the 201 of the Pet created, with the Location that \<^verbatim>\<open>url_for\<close> builds
  for the endpoint \<^verbatim>\<open>get_pets\<close>, the new id and \<^verbatim>\<open>_external=True\<close>.
\<close>

theorem create_content_type:
  "(content_type req = None \<or> content_type req = Some [] \<longrightarrow>
      create_pets url_for new_id db req = (Inl (Abort 400 ''No Content-Type set''), db))
   \<and> (content_type req = Some ct \<and> ct \<noteq> ''application/x-www-form-urlencoded''
        \<and> ct \<noteq> ''application/json'' \<longrightarrow>
      (\<exists>m. create_pets url_for new_id db req = (Inl (Abort 400 m), db) \<and> sublist ct m)
      \<and> (ct \<noteq> [] \<longrightarrow>
           create_pets url_for new_id db req = (Inl (Abort 400 (''Unsupported Content-Type: '' @ ct)), db)))
   \<and> (content_type req = Some ''application/x-www-form-urlencoded'' \<and> form_data req = Inr d
        \<or> content_type req = Some ''application/json'' \<and> get_json req = Some d \<longrightarrow>
      create_pets url_for new_id db req =
        (case deserialize Pet_new d of
           Inl m \<Rightarrow> (Inl (Abort 400 m), db)
         | Inr pet \<Rightarrow>
             (Inr \<lparr>status = 201, body = Json (serialize (pet\<lparr>ident := Some (new_id db)\<rparr>)),
                   location = Some (url_for ''get_pets'' (Some (new_id db)) True)\<rparr>,
              db @ [pet\<lparr>ident := Some (new_id db)\<rparr>])))"
proof (intro conjI impI)
  assume "content_type req = None \<or> content_type req = Some []"
  then show "create_pets url_for new_id db req = (Inl (Abort 400 ''No Content-Type set''), db)"
    by (auto simp: create_pets_def truthy_simps abort_def HTTP_400_BAD_REQUEST_def)
next
  assume a: "content_type req = Some ct \<and> ct \<noteq> ''application/x-www-form-urlencoded''
        \<and> ct \<noteq> ''application/json''"
  have u: "create_pets url_for new_id db req = (Inl (Abort 400 (''Unsupported Content-Type: '' @ ct)), db)"
    if "ct \<noteq> []"
    using a that
    by (simp add: create_pets_def truthy_simps abort_def HTTP_400_BAD_REQUEST_def)
  show "\<exists>m. create_pets url_for new_id db req = (Inl (Abort 400 m), db) \<and> sublist ct m"
  proof (cases "ct = []")
    case True
    with a have "create_pets url_for new_id db req = (Inl (Abort 400 ''No Content-Type set''), db)"
      by (simp add: create_pets_def truthy_simps abort_def HTTP_400_BAD_REQUEST_def)
    with True show ?thesis by simp
  next
    case False
    have "sublist ct (''Unsupported Content-Type: '' @ ct)"
      unfolding sublist_def by (intro exI [of _ "''Unsupported Content-Type: ''"] exI [of _ "[]"]) simp
    with u [OF False] show ?thesis by blast
  qed
  assume "ct \<noteq> []"
  then show "create_pets url_for new_id db req = (Inl (Abort 400 (''Unsupported Content-Type: '' @ ct)), db)"
    by (rule u)
next
  assume "content_type req = Some ''application/x-www-form-urlencoded'' \<and> form_data req = Inr d
        \<or> content_type req = Some ''application/json'' \<and> get_json req = Some d"
  then show "create_pets url_for new_id db req =
        (case deserialize Pet_new d of
           Inl m \<Rightarrow> (Inl (Abort 400 m), db)
         | Inr pet \<Rightarrow>
             (Inr \<lparr>status = 201, body = Json (serialize (pet\<lparr>ident := Some (new_id db)\<rparr>)),
                   location = Some (url_for ''get_pets'' (Some (new_id db)) True)\<rparr>,
              db @ [pet\<lparr>ident := Some (new_id db)\<rparr>]))"
    by (auto simp: create_pets_def truthy_simps abort_def HTTP_400_BAD_REQUEST_def json_data_def
        Pet_create_def HTTP_201_CREATED_def Let_def split: sum.splits)
qed

theorem create_content_type_witness:
  "content_type empty_request = None
   \<and> create_pets localhost_url_for (\<lambda>db. ''4'') [fido, kitty, rex] empty_request =
       (Inl (Abort 400 ''No Content-Type set''), [fido, kitty, rex])
   \<and> create_pets localhost_url_for (\<lambda>db. ''4'') [fido, kitty, rex] (json_request\<lparr>content_type := Some ''text/plain''\<rparr>) =
       (Inl (Abort 400 ''Unsupported Content-Type: text/plain''), [fido, kitty, rex])
   \<and> sublist ''text/plain'' ''Unsupported Content-Type: text/plain''
   \<and> create_pets localhost_url_for (\<lambda>db. ''4'') [fido, kitty, rex] json_request =
       (Inr \<lparr>status = 201, body = Json (serialize (nemo\<lparr>ident := Some ''4''\<rparr>)),
             location = Some ''http://localhost/pets/4''\<rparr>,
        [fido, kitty, rex, nemo\<lparr>ident := Some ''4''\<rparr>])"
proof -
  have 1: "create_pets localhost_url_for (\<lambda>db. ''4'') [fido, kitty, rex] empty_request =
       (Inl (Abort 400 ''No Content-Type set''), [fido, kitty, rex])"
    using create_content_type [where req = empty_request and db = "[fido, kitty, rex]"
        and new_id = "\<lambda>db. ''4''" and url_for = localhost_url_for]
    by (simp add: empty_request_def)
  have 2: "create_pets localhost_url_for (\<lambda>db. ''4'') [fido, kitty, rex] (json_request\<lparr>content_type := Some ''text/plain''\<rparr>) =
       (Inl (Abort 400 ''Unsupported Content-Type: text/plain''), [fido, kitty, rex])"
    using create_content_type [where req = "json_request\<lparr>content_type := Some ''text/plain''\<rparr>"
        and ct = "''text/plain''" and db = "[fido, kitty, rex]" and new_id = "\<lambda>db. ''4''" and url_for = localhost_url_for]
    by simp
  have 3: "create_pets localhost_url_for (\<lambda>db. ''4'') [fido, kitty, rex] json_request =
       (Inr \<lparr>status = 201, body = Json (serialize (nemo\<lparr>ident := Some ''4''\<rparr>)),
             location = Some ''http://localhost/pets/4''\<rparr>,
        [fido, kitty, rex, nemo\<lparr>ident := Some ''4''\<rparr>])"
    using create_content_type [where req = json_request and db = "[fido, kitty, rex]"
        and new_id = "\<lambda>db. ''4''" and url_for = localhost_url_for
        and d = "JObj [(''id'', JStr ''99''), (''name'', JStr ''nemo''),
                             (''category'', JStr ''fish''), (''available'', JBool True),
                             (''gender'', JStr ''MALE'')]"]
    by (simp add: json_request_def deserialize_json_request Pet_new_def nemo_def
        localhost_url_for_def)
  have 4: "sublist ''text/plain'' ''Unsupported Content-Type: text/plain''"
    unfolding sublist_def by (intro exI [of _ "''Unsupported Content-Type: ''"] exI [of _ "[]"]) simp
  show ?thesis
    using 1 2 3 4 by (simp add: empty_request_def)
qed

subsection \<open>Update\<close>

text \<open>
  Claim C7, as stated, fails: an update whose Content-Type header is present with an empty
  value, which differs from "application/json", fails with HTTP 400 and
  "No Content-Type set", not with HTTP 415, because the validator tests the truth value of
  the header.
\<close>

theorem update_content_type_counterexample:
  "update_pets [fido, kitty, rex] ''1''
     \<lparr>content_type = Some [], args = [], form = [],
      get_json = Some (JObj [(''name'', JStr ''nemo''), (''category'', JStr ''fish''),
                             (''available'', JBool True), (''gender'', JStr ''MALE'')])\<rparr>
   = (Inl (Abort 400 ''No Content-Type set''), [fido, kitty, rex])"
  by (simp add: update_pets_def check_content_type_def truthy_simps abort_def
      HTTP_400_BAD_REQUEST_def)

text \<open>
  Claim C7, amended. An update whose Content-Type is missing or empty fails with HTTP 400;
  one whose Content-Type is a non-empty string other than "application/json" fails with
  HTTP 415. Both hold for every store and id, so the check comes before the lookup of the
  record: the 404 of an id that names no Pet is returned only for "application/json".
\<close>

theorem update_content_type:
  "(content_type req = None \<or> content_type req = Some [] \<longrightarrow>
      update_pets db pet_id req = (Inl (Abort 400 ''No Content-Type set''), db))
   \<and> (content_type req = Some ct \<and> ct \<noteq> [] \<and> ct \<noteq> ''application/json'' \<longrightarrow>
      update_pets db pet_id req =
        (Inl (Abort 415 ''Content-Type must be application/json''), db))
   \<and> (content_type req = Some ''application/json'' \<and> Pet_find db pet_id = None \<longrightarrow>
      update_pets db pet_id req = (Inl (Abort 404 (not_found_message pet_id)), db))"
  by (auto simp: update_pets_def check_content_type_def truthy_simps abort_def
      HTTP_400_BAD_REQUEST_def HTTP_415_UNSUPPORTED_MEDIA_TYPE_def HTTP_404_NOT_FOUND_def)

theorem update_content_type_witness:
  "content_type empty_request = None
   \<and> update_pets [fido, kitty, rex] ''7'' empty_request =
       (Inl (Abort 400 ''No Content-Type set''), [fido, kitty, rex])
   \<and> update_pets [fido, kitty, rex] ''7'' (json_request\<lparr>content_type := Some ''text/plain''\<rparr>) =
       (Inl (Abort 415 ''Content-Type must be application/json''), [fido, kitty, rex])
   \<and> Pet_find [fido, kitty, rex] ''7'' = None
   \<and> update_pets [fido, kitty, rex] ''7'' json_request =
       (Inl (Abort 404 (''Pet with id '' @ [CHR 0x27] @ ''7'' @ [CHR 0x27] @ '' was not found.'')),
        [fido, kitty, rex])"
proof -
  have n: "Pet_find [fido, kitty, rex] ''7'' = None"
    by (simp add: Pet_find_def fido_def kitty_def rex_def)
  show ?thesis
    using update_content_type [where req = empty_request and db = "[fido, kitty, rex]"
        and pet_id = "''7''"]
      update_content_type [where req = "json_request\<lparr>content_type := Some ''text/plain''\<rparr>"
        and ct = "''text/plain''" and db = "[fido, kitty, rex]" and pet_id = "''7''"]
      update_content_type [where req = json_request and db = "[fido, kitty, rex]"
        and pet_id = "''7''"]
      n
    by (simp add: empty_request_def json_request_def not_found_message_def)
qed

text \<open>
  Claim C8. An update with Content-Type "application/json" of a Pet that exists, with a
  body that gives a name, a category, a boolean available and a recognised gender, returns
  HTTP 200 with the serialized Pet whose four fields are those of the body and whose id is
  the id of the path; that Pet is the one persisted and found under the id afterwards. An
  id in the body changes nothing: the outcome is the same with any id field put in front
  of the body.
\<close>

theorem update_replaces_fields:
  assumes "content_type req = Some ''application/json''"
    and "Pet_find db pet_id = Some pet"
    and "get_json req = Some (JObj fs)"
    and "map_of fs ''name'' = Some (JStr n)"
    and "map_of fs ''category'' = Some (JStr c)"
    and "map_of fs ''available'' = Some (JBool a)"
    and "map_of fs ''gender'' = Some (JStr t)"
    and "Gender_of_name t = Some g"
  shows "update_pets db pet_id req =
           (Inr \<lparr>status = 200,
                 body = Json (serialize \<lparr>ident = Some pet_id, name = n, category = c,
                                          available = a, gender = g\<rparr>),
                 location = None\<rparr>,
            Pet_update db \<lparr>ident = Some pet_id, name = n, category = c, available = a, gender = g\<rparr>)
         \<and> Pet_find (snd (update_pets db pet_id req)) pet_id =
             Some \<lparr>ident = Some pet_id, name = n, category = c, available = a, gender = g\<rparr>
         \<and> update_pets db pet_id (req\<lparr>get_json := Some (JObj ((''id'', v) # fs))\<rparr>) =
             update_pets db pet_id req"
proof -
  let ?p = "\<lparr>ident = Some pet_id, name = n, category = c, available = a, gender = g\<rparr>"
  have d: "deserialize pet (JObj fs) = Inr (pet\<lparr>name := n, category := c, available := a, gender := g\<rparr>)"
    using assms by (simp add: deserialize_def)
  have d': "deserialize pet (JObj ((''id'', v) # fs)) = deserialize pet (JObj fs)"
    using assms by (simp add: deserialize_def)
  have e: "pet\<lparr>name := n, category := c, available := a, gender := g, ident := Some pet_id\<rparr> = ?p"
    by (cases pet) simp
  have u: "update_pets db pet_id req =
      (Inr \<lparr>status = 200, body = Json (serialize ?p), location = None\<rparr>, Pet_update db ?p)"
    using assms(1-3) d
    by (simp add: update_pets_def check_content_type_def truthy_simps json_data_def
        make_response_def HTTP_200_OK_def Let_def e)
  have f: "Pet_find (Pet_update db ?p) pet_id = Some ?p"
    using assms(2) by (simp add: Pet_find_update Pet_find_ident)
  have i: "update_pets db pet_id (req\<lparr>get_json := Some (JObj ((''id'', v) # fs))\<rparr>) =
             update_pets db pet_id req"
    using assms(1-3) d'
    by (simp add: update_pets_def check_content_type_def truthy_simps json_data_def)
  show ?thesis
    using u f i by simp
qed

theorem update_replaces_fields_witness:
  "update_pets [fido, kitty, rex] ''3'' json_request =
     (Inr \<lparr>status = 200, body = Json (serialize (nemo\<lparr>ident := Some ''3''\<rparr>)), location = None\<rparr>,
      [fido, kitty, nemo\<lparr>ident := Some ''3''\<rparr>])
   \<and> Pet_find (snd (update_pets [fido, kitty, rex] ''3'' json_request)) ''3'' =
       Some (nemo\<lparr>ident := Some ''3''\<rparr>)
   \<and> update_pets [fido, kitty, rex] ''3''
        (json_request\<lparr>get_json := Some (JObj
           [(''id'', JStr ''1''), (''id'', JStr ''99''), (''name'', JStr ''nemo''),
            (''category'', JStr ''fish''), (''available'', JBool True),
            (''gender'', JStr ''MALE'')])\<rparr>) =
       update_pets [fido, kitty, rex] ''3'' json_request"
proof -
  have r: "Pet_find [fido, kitty, rex] ''3'' = Some rex"
    by (simp add: Pet_find_def fido_def kitty_def rex_def)
  have u: "Pet_update [fido, kitty, rex] (nemo\<lparr>ident := Some ''3''\<rparr>)
           = [fido, kitty, nemo\<lparr>ident := Some ''3''\<rparr>]"
    by (simp add: Pet_update_def fido_def kitty_def rex_def nemo_def)
  have n: "\<lparr>ident = Some ''3'', name = ''nemo'', category = ''fish'', available = True, gender = MALE\<rparr>
           = nemo\<lparr>ident := Some ''3''\<rparr>"
    by (simp add: nemo_def)
  note t = update_replaces_fields [where req = json_request and db = "[fido, kitty, rex]"
      and pet_id = "''3''" and pet = rex and n = "''nemo''" and c = "''fish''" and a = True
      and t = "''MALE''" and g = MALE and v = "JStr ''1''"
      and fs = "[(''id'', JStr ''99''), (''name'', JStr ''nemo''),
                 (''category'', JStr ''fish''), (''available'', JBool True),
                 (''gender'', JStr ''MALE'')]", unfolded n u]
  have "content_type json_request = Some ''application/json''"
    "get_json json_request = Some (JObj [(''id'', JStr ''99''), (''name'', JStr ''nemo''),
                 (''category'', JStr ''fish''), (''available'', JBool True),
                 (''gender'', JStr ''MALE'')])"
    "Gender_of_name ''MALE'' = Some MALE"
    by (simp_all add: json_request_def Gender_of_name_def)
  moreover have "Pet_find [fido, kitty, nemo\<lparr>ident := Some ''3''\<rparr>] ''3'' = Some (nemo\<lparr>ident := Some ''3''\<rparr>)"
    by (simp add: Pet_find_def fido_def kitty_def nemo_def)
  ultimately show ?thesis
    using r t by simp
qed

subsection \<open>Errors and the store\<close>

text \<open>
  Claim C10. When a handler fails, the store is as it was before the request: retrieve
  fails only with 404, create only with 400, update only with 400, 404 or 415, purchase
  only with 404 or 409, and each of them leaves the store unchanged on failure. Delete and
  list never fail, and list never changes the store.
\<close>

theorem errors_leave_store:
  "(fst (get_pets db pet_id) = Inl (Abort code m) \<longrightarrow>
      snd (get_pets db pet_id) = db \<and> code = 404)
   \<and> (fst (create_pets url_for new_id db req) = Inl (Abort code m) \<longrightarrow>
      snd (create_pets url_for new_id db req) = db \<and> code = 400)
   \<and> (fst (update_pets db pet_id req) = Inl (Abort code m) \<longrightarrow>
      snd (update_pets db pet_id req) = db \<and> code \<in> {400, 404, 415})
   \<and> (fst (purchase_pets db pet_id) = Inl (Abort code m) \<longrightarrow>
      snd (purchase_pets db pet_id) = db \<and> code \<in> {404, 409})
   \<and> fst (delete_pets db pet_id) \<noteq> Inl (Abort code m)
   \<and> fst (list_pets db req) \<noteq> Inl (Abort code m) \<and> snd (list_pets db req) = db"
proof (intro conjI impI)
  assume "fst (get_pets db pet_id) = Inl (Abort code m)"
  then show "snd (get_pets db pet_id) = db" "code = 404"
    by (auto simp: get_pets_def abort_def HTTP_404_NOT_FOUND_def split: option.splits)
next
  assume a: "fst (create_pets url_for new_id db req) = Inl (Abort code m)"
  then show "snd (create_pets url_for new_id db req) = db"
    by (auto simp: create_pets_def Let_def split: if_splits sum.splits prod.splits)
  from a show "code = 400"
    by (auto simp: create_pets_def Let_def abort_def HTTP_400_BAD_REQUEST_def form_data_def
        key_error_def json_data_def split: if_splits sum.splits prod.splits option.splits)
next
  assume a: "fst (update_pets db pet_id req) = Inl (Abort code m)"
  then show "snd (update_pets db pet_id req) = db"
    by (auto simp: update_pets_def Let_def split: sum.splits option.splits)
  from a show "code \<in> {400, 404, 415}"
    by (auto simp: update_pets_def Let_def abort_def check_content_type_def json_data_def
        HTTP_400_BAD_REQUEST_def HTTP_404_NOT_FOUND_def HTTP_415_UNSUPPORTED_MEDIA_TYPE_def
        split: sum.splits option.splits if_splits)
next
  assume "fst (purchase_pets db pet_id) = Inl (Abort code m)"
  then show "snd (purchase_pets db pet_id) = db" "code \<in> {404, 409}"
    by (auto simp: purchase_pets_def Let_def abort_def HTTP_404_NOT_FOUND_def HTTP_409_CONFLICT_def
        split: option.splits if_splits)
next
  show "fst (delete_pets db pet_id) \<noteq> Inl (Abort code m)"
    by (simp add: delete_pets_def Let_def)
  show "fst (list_pets db req) \<noteq> Inl (Abort code m)"
    by (simp add: list_pets_def Let_def)
  show "snd (list_pets db req) = db"
    by (simp add: list_pets_def Let_def)
qed

theorem errors_leave_store_witness:
  "get_pets [fido, kitty, rex] ''7'' =
     (Inl (Abort 404 (not_found_message ''7'')), [fido, kitty, rex])
   \<and> create_pets localhost_url_for (\<lambda>db. ''4'') [fido, kitty, rex] (json_request\<lparr>content_type := Some ''text/plain''\<rparr>) =
     (Inl (Abort 400 ''Unsupported Content-Type: text/plain''), [fido, kitty, rex])
   \<and> update_pets [fido, kitty, rex] ''7'' json_request =
     (Inl (Abort 404 (not_found_message ''7'')), [fido, kitty, rex])
   \<and> purchase_pets [fido, kitty, rex] ''3'' =
     (Inl (Abort 409 (not_available_message ''3'')), [fido, kitty, rex])"
proof -
  have n: "Pet_find [fido, kitty, rex] ''7'' = None"
    and r: "Pet_find [fido, kitty, rex] ''3'' = Some rex"
    and a: "\<not> available rex"
    by (simp_all add: Pet_find_def fido_def kitty_def rex_def)
  have 1: "fst (get_pets [fido, kitty, rex] ''7'') = Inl (Abort 404 (not_found_message ''7''))"
    using n by (simp add: get_pets_def abort_def HTTP_404_NOT_FOUND_def)
  have 2: "fst (create_pets localhost_url_for (\<lambda>db. ''4'') [fido, kitty, rex]
                 (json_request\<lparr>content_type := Some ''text/plain''\<rparr>))
           = Inl (Abort 400 ''Unsupported Content-Type: text/plain'')"
    by (simp add: create_pets_def truthy_simps abort_def HTTP_400_BAD_REQUEST_def)
  have 3: "fst (update_pets [fido, kitty, rex] ''7'' json_request)
           = Inl (Abort 404 (not_found_message ''7''))"
    using n
    by (simp add: update_pets_def check_content_type_def truthy_simps json_request_def abort_def
        HTTP_404_NOT_FOUND_def)
  have 4: "fst (purchase_pets [fido, kitty, rex] ''3'') = Inl (Abort 409 (not_available_message ''3''))"
    using r a by (simp add: purchase_pets_def abort_def HTTP_409_CONFLICT_def)
  note t = errors_leave_store [where db = "[fido, kitty, rex]" and new_id = "\<lambda>db. ''4''" and url_for = localhost_url_for]
  have "snd (get_pets [fido, kitty, rex] ''7'') = [fido, kitty, rex]"
    using t [where pet_id = "''7''" and code = 404 and m = "not_found_message ''7''"] 1 by simp
  moreover have "snd (create_pets localhost_url_for (\<lambda>db. ''4'') [fido, kitty, rex]
                 (json_request\<lparr>content_type := Some ''text/plain''\<rparr>)) = [fido, kitty, rex]"
    using t [where req = "json_request\<lparr>content_type := Some ''text/plain''\<rparr>" and code = 400
        and m = "''Unsupported Content-Type: text/plain''"] 2 by simp
  moreover have "snd (update_pets [fido, kitty, rex] ''7'' json_request) = [fido, kitty, rex]"
    using t [where pet_id = "''7''" and req = json_request and code = 404
        and m = "not_found_message ''7''"] 3 by simp
  moreover have "snd (purchase_pets [fido, kitty, rex] ''3'') = [fido, kitty, rex]"
    using t [where pet_id = "''3''" and code = 409 and m = "not_available_message ''3''"] 4 by simp
  ultimately show ?thesis
    using 1 2 3 4 by (simp add: prod_eq_iff)
qed

end
